theory Spec2Isabelle
  imports Main
begin

section \<open>Python values and effects\<close>

text \<open>
  Strings are byte strings in UTF-8 (\<open>string\<close>); the one character of \<open>app.py\<close> outside
  ASCII, the robot emoji of the page heading, is its four UTF-8 bytes.

  An exception value carries the text \<open>str(e)\<close> that the f-strings of \<open>app.py\<close> print.
  Both handlers of \<open>app.py\<close> are written \<open>except Exception as e\<close>, so the model keeps
  the one distinction such a handler makes: \<open>Exception m\<close> is an instance of the class
  \<open>Exception\<close> (every error a library raises); \<open>BaseException m\<close> is an exception
  outside that class (\<open>KeyboardInterrupt\<close>, \<open>SystemExit\<close>, \<open>GeneratorExit\<close>), which
  \<open>except Exception\<close> does not catch.
\<close>

datatype exn = Exception string | BaseException string

text \<open>What a call does: it returns a value or raises.\<close>

datatype 'a outcome = Returns 'a | Raises exn

text \<open>
  What the program does to the world, in order: a line printed to the log, the
  construction of the service client from an API key, the \<open>k\<close>-th invocation (from 0)
  of \<open>client.models.generate_content\<close>, and \<open>time.sleep\<close> of a number of seconds.
\<close>

datatype event = Print string | Client_Init string | Generate_Content nat | Sleep nat

fun is_Print :: "event \<Rightarrow> bool" where
  "is_Print (Print s) = True"
| "is_Print e = False"

text \<open>The trace without its log lines, the attempts made and the delays slept.\<close>

definition effects :: "event list \<Rightarrow> event list" where
  "effects tr = filter (\<lambda>e. \<not> is_Print e) tr"

fun attempts :: "event list \<Rightarrow> nat list" where
  "attempts [] = []"
| "attempts (Generate_Content k # tr) = k # attempts tr"
| "attempts (e # tr) = attempts tr"

fun sleeps :: "event list \<Rightarrow> nat list" where
  "sleeps [] = []"
| "sleeps (Sleep s # tr) = s # sleeps tr"
| "sleeps (e # tr) = sleeps tr"

text \<open>\<open>str(n)\<close> of a natural number, as the f-strings format it.\<close>

fun str_nat :: "nat \<Rightarrow> string" where
  "str_nat n =
     (if n < 10 then [char_of (48 + n)]
      else str_nat (n div 10) @ [char_of (48 + n mod 10)])"

text \<open>\<open>str(x)\<close> of an optional string: \<open>None\<close> prints as the word None.\<close>

fun py_str :: "string option \<Rightarrow> string" where
  "py_str None = ''None''"
| "py_str (Some s) = s"

section \<open>The service: requests, responses, the client\<close>

text \<open>
  The types of \<open>google.genai\<close> are not part of the repository. A response is modelled
  with exactly the attributes \<open>home\<close> reads, each optional attribute as an option:
  \<open>response.text\<close>, \<open>response.candidates\<close>, \<open>candidate.grounding_metadata\<close>,
  \<open>grounding_metadata.grounding_attributions\<close>, \<open>attr.web\<close>, \<open>web.uri\<close>, \<open>web.title\<close>.
\<close>

record web_source =
  uri :: "string option"
  title :: "string option"

record attribution =
  web :: "web_source option"

record metadata =
  grounding_attributions :: "attribution list option"

record candidate =
  grounding_metadata :: "metadata option"

record response =
  response_text :: "string option"
  candidates :: "candidate list option"

record generate_content_config =
  system_instruction :: string
  tools :: "string list"

record request =
  model :: string
  contents :: string
  config :: generate_content_config

text \<open>
  \<open>client.models.generate_content\<close>: the outcome of its \<open>k\<close>-th invocation (from 0) on a
  request. The service is outside the program, so its behaviour is a parameter.
\<close>

type_synonym 'r client = "request \<Rightarrow> nat \<Rightarrow> 'r outcome"

definition MODEL_NAME :: string where
  "MODEL_NAME = ''gemini-2.5-flash-preview-09-2025''"

section \<open>call_gemini_with_backoff\<close>

definition attempting_msg :: "nat \<Rightarrow> string" where
  "attempting_msg attempt = ''Attempting API call (Attempt '' @ str_nat (attempt + 1) @ '')...''"

definition failed_msg :: "nat \<Rightarrow> string \<Rightarrow> string" where
  "failed_msg attempt e = ''API call failed on attempt '' @ str_nat (attempt + 1) @ '': '' @ e"

definition waiting_msg :: "nat \<Rightarrow> string" where
  "waiting_msg sleep_time = ''Waiting '' @ str_nat sleep_time @ '' seconds before retrying...''"

text \<open>
  The loop \<open>for attempt in range(max_retries)\<close> from the iteration \<open>attempt\<close> on. The
  result is \<open>Inr (Some response)\<close> for \<open>return response\<close>, \<open>Inr None\<close> for \<open>return None\<close>
  and \<open>Inl e\<close> for an exception that leaves the function; beside it the trace of what
  was done. \<open>max_retries\<close> is a Python int, so it may be zero or negative.
\<close>

function backoff_loop :: "'r client \<Rightarrow> request \<Rightarrow> int \<Rightarrow> nat \<Rightarrow> (exn + 'r option) \<times> event list" where
  "backoff_loop client req max_retries attempt =
     (if int attempt < max_retries then
        (case client req attempt of
           Returns response \<Rightarrow>
             (Inr (Some response),
              [Print (attempting_msg attempt), Generate_Content attempt,
               Print ''API call successful.''])
         | Raises (Exception e) \<Rightarrow>
             (if int attempt < max_retries - 1 then
                (let sleep_time = 2 ^ attempt;
                     (result, trace) = backoff_loop client req max_retries (attempt + 1)
                 in (result,
                     [Print (attempting_msg attempt), Generate_Content attempt,
                      Print (failed_msg attempt e), Print (waiting_msg sleep_time),
                      Sleep sleep_time] @ trace))
              else
                (Inr None,
                 [Print (attempting_msg attempt), Generate_Content attempt,
                  Print (failed_msg attempt e)]))
         | Raises (BaseException e) \<Rightarrow>
             (Inl (BaseException e),
              [Print (attempting_msg attempt), Generate_Content attempt]))
      else (Inr None, []))"
  by pat_completeness auto
termination
  by (relation "measure (\<lambda>(client, req, max_retries, attempt). nat (max_retries - int attempt))") auto

declare backoff_loop.simps [simp del]

text \<open>
  The request every attempt sends: \<open>model=MODEL_NAME\<close>, the contents, and the config built
  from the system instruction and the tools.
\<close>

definition request_of :: "string \<Rightarrow> string \<Rightarrow> string list \<Rightarrow> request" where
  "request_of contents' system_instruction' tools' =
     \<lparr>model = MODEL_NAME, contents = contents',
      config = \<lparr>system_instruction = system_instruction', tools = tools'\<rparr>\<rparr>"

definition call_gemini_with_backoff ::
  "'r client \<Rightarrow> string \<Rightarrow> string \<Rightarrow> string list \<Rightarrow> int \<Rightarrow> (exn + 'r option) \<times> event list" where
  "call_gemini_with_backoff client contents' system_instruction' tools' max_retries =
     backoff_loop client (request_of contents' system_instruction' tools') max_retries 0"

section \<open>The route handler home\<close>

text \<open>
  The world \<open>home\<close> runs in: the process environment (a dict, so a map), the
  constructor \<open>genai.Client(api_key=...)\<close>, which returns a client or raises, and what
  Jinja2 makes of a template source that holds template syntax: the rendered text, or the
  exception it raises.
\<close>

record world =
  environ :: "string \<Rightarrow> string option"
  genai_Client :: "string \<Rightarrow> response client outcome"
  jinja :: "string \<Rightarrow> string outcome"

text \<open>\<open>API_KEY = os.environ.get("GEMINI_API_KEY", "")\<close>\<close>

definition API_KEY :: "world \<Rightarrow> string" where
  "API_KEY w = (case environ w ''GEMINI_API_KEY'' of None \<Rightarrow> [] | Some v \<Rightarrow> v)"

text \<open>
  \<open>render_template_string\<close> is Flask's, on Jinja2, and no part of the repository. It is
  modelled from Jinja2's documentation as far as \<open>home\<close> needs it: a source that holds none
  of the delimiters \<open>{{\<close>, \<open>{%\<close> and \<open>{#\<close> is data and renders to itself, less one trailing
  newline (\<open>keep_trailing_newline\<close> is off by default); what becomes of a source that holds
  a delimiter is the world's \<open>jinja\<close>.
\<close>

fun has_delimiter :: "string \<Rightarrow> bool" where
  "has_delimiter (a # b # s) =
     ((a = CHR ''{'' \<and> (b = CHR ''{'' \<or> b = CHR ''%'' \<or> b = CHR ''#'')) \<or> has_delimiter (b # s))"
| "has_delimiter s = False"

definition strip_trailing_newline :: "string \<Rightarrow> string" where
  "strip_trailing_newline s = (if s \<noteq> [] \<and> last s = CHR 0x0A then butlast s else s)"

definition render_template_string :: "(string \<Rightarrow> string outcome) \<Rightarrow> string \<Rightarrow> string outcome" where
  "render_template_string jinja' source =
     (if has_delimiter source then jinja' source
      else Returns (strip_trailing_newline source))"

text \<open>
  What \<open>home\<close> returns, a str either way: \<open>Render_Template_String html\<close> is the str that
  \<open>render_template_string\<close> returned, \<open>Str s\<close> a str of \<open>home\<close>'s own returned as it is.
\<close>

datatype page = Render_Template_String string | Str string

text \<open>
  \<open>return render_template_string(source)\<close>: the rendered str is returned, and an exception
  that the rendering raises leaves \<open>home\<close>, also where the \<open>return\<close> stands inside the
  \<open>except\<close> block, which no \<open>try\<close> encloses.
\<close>

definition return_template :: "world \<Rightarrow> string \<Rightarrow> page outcome" where
  "return_template w source =
     (case render_template_string (jinja w) source of
        Returns html \<Rightarrow> Returns (Render_Template_String html)
      | Raises x \<Rightarrow> Raises x)"

definition api_key_missing_template :: string where
  \<open>api_key_missing_template =
     ''\<newline>'' @
     ''            <div style="padding: 40px; text-align: center; font-family: sans-serif;">\<newline>'' @
     ''                <h1 style="color: #EF4444;">API Key Missing</h1>\<newline>'' @
     ''                <p>The <code>GEMINI_API_KEY</code> environment variable is not set.</p>\<newline>'' @
     ''                <p>Please ensure you set the environment variable or, if deploying, that the platform is injecting it.</p>\<newline>'' @
     ''                <p style="color: #6B7280; font-size: 14px;">(The key is left blank in this file to be securely injected by the environment.)</p>\<newline>'' @
     ''            </div>\<newline>'' @
     ''        ''\<close>

definition client_init_error_template :: "string \<Rightarrow> string" where
  \<open>client_init_error_template e =
     ''<h1 style='color: #EF4444;'>Client Initialization Error</h1><p>'' @ e @ ''</p>''\<close>

definition api_call_failed_template :: string where
  \<open>api_call_failed_template =
     ''\<newline>'' @
     ''            <div style="padding: 40px; text-align: center; font-family: sans-serif;">\<newline>'' @
     ''                <h1 style="color: #F59E0B;">API Call Failed</h1>\<newline>'' @
     ''                <p>Could not get a response from the Gemini API after multiple retries.</p>\<newline>'' @
     ''                <p>Please check your network connection and API key validity.</p>\<newline>'' @
     ''            </div>\<newline>'' @
     ''            ''\<close>

definition system_prompt :: string where
  \<open>system_prompt = ''You are a friendly, witty, and highly helpful assistant running on a new web service. Your task is to greet the user and provide a single, fascinating, and up-to-date piece of information about the world of technology or science, grounded by Google Search.''\<close>

definition user_query :: string where
  \<open>user_query = ''Give me one amazing fact about the current state of AI or space exploration.''\<close>

text \<open>\<open>tools = [{"google_search": {}}]\<close>, each tool by its name.\<close>

definition home_tools :: "string list" where
  "home_tools = [''google_search'']"

text \<open>
  One entry of \<open>sources\<close>, the dict \<open>{'uri': ..., 'title': ...}\<close>.
\<close>

record source =
  source_uri :: string
  source_title :: string

text \<open>
  The list comprehension's filter and element for one attribution. The condition
  \<open>attr.web and attr.web.uri and attr.web.title\<close> is Python truthiness, left to right:
  \<open>None\<close> and the empty string are false.
\<close>

definition source_of :: "attribution \<Rightarrow> source option" where
  "source_of attr =
     (case web attr of
        None \<Rightarrow> None
      | Some w \<Rightarrow>
          (case uri w of
             None \<Rightarrow> None
           | Some u \<Rightarrow>
               if u = [] then None
               else (case title w of
                       None \<Rightarrow> None
                     | Some t \<Rightarrow>
                         if t = [] then None
                         else Some \<lparr>source_uri = u, source_title = t\<rparr>)))"

text \<open>
  The value of \<open>sources\<close> after the block "Check for grounding metadata": only the first
  candidate is read; an absent or empty list is false.
\<close>

definition sources :: "response \<Rightarrow> source list" where
  "sources response =
     (case candidates response of
        None \<Rightarrow> []
      | Some [] \<Rightarrow> []
      | Some (c # cs) \<Rightarrow>
          (case grounding_metadata c of
             None \<Rightarrow> []
           | Some gm \<Rightarrow>
               (case grounding_attributions gm of
                  None \<Rightarrow> []
                | Some [] \<Rightarrow> []
                | Some (a # as) \<Rightarrow> List.map_filter source_of (a # as))))"

definition list_item :: "source \<Rightarrow> string" where
  \<open>list_item s =
     ''<li class='text-sm text-gray-500'><a href='' @ [CHR 0x27] @ source_uri s @
     [CHR 0x27] @ '' target='_blank' class='hover:underline text-blue-500'>'' @ source_title s @
     ''</a></li>''\<close>

definition list_items :: "source list \<Rightarrow> string" where
  "list_items srcs = concat (map list_item srcs)"

definition html_sources :: "source list \<Rightarrow> string" where
  \<open>html_sources srcs =
     (if srcs = [] then []
      else
        ''\<newline>'' @
        ''            <div class="mt-8 pt-4 border-t border-gray-200">\<newline>'' @
        ''                <p class="text-xs font-semibold uppercase text-gray-400 mb-2">Sources (Grounded by Google Search):</p>\<newline>'' @
        ''                <ul class="list-disc list-inside space-y-1">'' @
        list_items srcs @
        ''</ul>\<newline>'' @
        ''            </div>\<newline>'' @
        ''        '')\<close>

text \<open>The three literal parts of the f-string \<open>html_template\<close>.\<close>

definition html_template_head :: string where
  \<open>html_template_head =
     ''\<newline>'' @
     ''    <!DOCTYPE html>\<newline>'' @
     ''    <html lang="en">\<newline>'' @
     ''    <head>\<newline>'' @
     ''        <meta charset="UTF-8">\<newline>'' @
     ''        <meta name="viewport" content="width=device-width, initial-scale=1.0">\<newline>'' @
     ''        <title>Gemini Hello World App</title>\<newline>'' @
     ''        <script src="https://cdn.tailwindcss.com"></script>\<newline>'' @
     ''        <link href="https://fonts.googleapis.com/css2?family=Inter:wght@400;600;700&display=swap" rel="stylesheet">\<newline>'' @
     ''        <style>\<newline>'' @
     ''            body { font-family: 'Inter', sans-serif; background-color: #f7fafc; }\<newline>'' @
     ''        </style>\<newline>'' @
     ''    </head>\<newline>'' @
     ''    <body class="p-8">\<newline>'' @
     ''        <div class="max-w-3xl mx-auto bg-white shadow-xl rounded-xl p-8 md:p-12 mt-10">\<newline>'' @
     ''            <h1 class="text-3xl font-bold text-gray-800 mb-6 flex items-center">\<newline>'' @
     ''                '' @ [CHR 0xF0, CHR 0x9F, CHR 0xA4, CHR 0x96] @ '' Gemini App Running on Doprax\<newline>'' @
     ''            </h1>\<newline>'' @
     ''            <div class="bg-blue-50 border-l-4 border-blue-400 text-blue-800 p-4 rounded-lg">\<newline>'' @
     ''                <p class="font-medium text-lg">Response from Gemini:</p>\<newline>'' @
     ''                '' @ ''<p class="mt-2 whitespace-pre-wrap">''\<close>

definition html_template_middle :: string where
  \<open>html_template_middle =
     ''</p>\<newline>'' @
     ''            </div>\<newline>'' @
     ''            ''\<close>

definition html_template_tail :: string where
  \<open>html_template_tail =
     ''\<newline>'' @
     ''            <div class="mt-10 text-center text-gray-400 text-sm">\<newline>'' @
     ''                <p>This application was deployed using Python 3.12 and Flask.</p>\<newline>'' @
     ''            </div>\<newline>'' @
     ''        </div>\<newline>'' @
     ''    </body>\<newline>'' @
     ''    </html>\<newline>'' @
     ''    ''\<close>

definition html_template :: "string \<Rightarrow> string \<Rightarrow> string" where
  "html_template generated_text html_sources' =
     html_template_head @ generated_text @ html_template_middle @ html_sources' @
     html_template_tail"

text \<open>
  \<open>home\<close>, with its four \<open>return\<close>s in the order of the source. The call of
  \<open>call_gemini_with_backoff\<close> leaves \<open>max_retries\<close> at its default 5. An exception that
  no handler catches leaves \<open>home\<close> (\<open>Raises\<close>).
\<close>

definition home :: "world \<Rightarrow> page outcome \<times> event list" where
  "home w =
     (if API_KEY w = [] then
        (return_template w api_key_missing_template, [])
      else
        (case genai_Client w (API_KEY w) of
           Raises (Exception e) \<Rightarrow>
             (return_template w (client_init_error_template e),
              [Client_Init (API_KEY w)])
         | Raises (BaseException e) \<Rightarrow>
             (Raises (BaseException e), [Client_Init (API_KEY w)])
         | Returns client \<Rightarrow>
             (case call_gemini_with_backoff client user_query system_prompt home_tools 5 of
                (Inl e, trace) \<Rightarrow> (Raises e, Client_Init (API_KEY w) # trace)
              | (Inr None, trace) \<Rightarrow>
                  (return_template w api_call_failed_template,
                   Client_Init (API_KEY w) # trace)
              | (Inr (Some response), trace) \<Rightarrow>
                  (Returns (Str (html_template (py_str (response_text response))
                                   (html_sources (sources response)))),
                   Client_Init (API_KEY w) # trace))))"

text \<open>
  \<open>@app.route('/')\<close>: Flask answers the request with the str that \<open>home\<close> returns as the
  body of a response. \<open>home\<close> returns no status of its own, so the status is Flask's
  default, 200. An instance of \<open>Exception\<close> that leaves \<open>home\<close> is answered by Flask with
  status 500 in place of a page of \<open>home\<close>'s; an exception outside \<open>Exception\<close> passes
  through Flask.
\<close>

datatype reply = Response nat page | Internal_Server_Error exn | Unhandled exn

definition route_home :: "world \<Rightarrow> reply" where
  "route_home w =
     (case fst (home w) of
        Returns p \<Rightarrow> Response 200 p
      | Raises (Exception m) \<Rightarrow> Internal_Server_Error (Exception m)
      | Raises (BaseException m) \<Rightarrow> Unhandled (BaseException m))"

section \<open>The claims' own words\<close>







text \<open>HTML escaping as Python's \<open>html.escape\<close> does it.\<close>

definition escape_char :: "char \<Rightarrow> string" where
  "escape_char c =
     (if c = CHR ''&'' then ''&amp;''
      else if c = CHR ''<'' then ''&lt;''
      else if c = CHR ''>'' then ''&gt;''
      else if c = CHR 0x22 then ''&quot;''
      else if c = CHR 0x27 then ''&#x27;''
      else [c])"

definition html_escape :: "string \<Rightarrow> string" where
  "html_escape s = concat (map escape_char s)"

section \<open>Example services and worlds\<close>

definition failing_client :: "response client" where
  "failing_client req k = Raises (Exception ''503 UNAVAILABLE'')"

definition flaky_client :: "response \<Rightarrow> response client" where
  "flaky_client r req k = (if k < 2 then Raises (Exception ''timeout'') else Returns r)"

definition steady_client :: "response \<Rightarrow> response client" where
  "steady_client r req k = Returns r"

definition interrupted_client :: "response client" where
  "interrupted_client req k = Raises (BaseException ''SystemExit'')"

definition fact_response :: response where
  "fact_response =
     \<lparr>response_text = Some ''Fact X'',
      candidates = Some [\<lparr>grounding_metadata = Some \<lparr>grounding_attributions = Some
        [\<lparr>web = Some \<lparr>uri = Some ''https://a.example'', title = Some ''A''\<rparr>\<rparr>,
         \<lparr>web = Some \<lparr>uri = Some ''https://b.example'', title = None\<rparr>\<rparr>,
         \<lparr>web = Some \<lparr>uri = Some [], title = Some ''C''\<rparr>\<rparr>,
         \<lparr>web = None\<rparr>]\<rparr>\<rparr>]\<rparr>"

definition empty_response :: response where
  "empty_response = \<lparr>response_text = Some [], candidates = None\<rparr>"

definition markup_response :: response where
  "markup_response = \<lparr>response_text = Some ''<b>'', candidates = None\<rparr>"

text \<open>
  A world with a given value of the key and a given outcome of the client's construction.
  Its Jinja2 rejects a source that holds a delimiter, as Jinja2 does the unclosed block
  \<open>{% x\<close>.
\<close>

definition world_with :: "string option \<Rightarrow> response client outcome \<Rightarrow> world" where
  "world_with key made =
     \<lparr>environ = (\<lambda>name. if name = ''GEMINI_API_KEY'' then key else None),
      genai_Client = (\<lambda>api_key. made),
      jinja = (\<lambda>source. Raises (Exception ''jinja2.exceptions.TemplateSyntaxError''))\<rparr>"

section \<open>Facts about traces and the retry loop\<close>

lemma effects_append: "effects (xs @ ys) = effects xs @ effects ys"
  by (simp add: effects_def)

lemma attempts_append: "attempts (xs @ ys) = attempts xs @ attempts ys"
  by (induction xs rule: attempts.induct) simp_all

lemma sleeps_append: "sleeps (xs @ ys) = sleeps xs @ sleeps ys"
  by (induction xs rule: sleeps.induct) simp_all

lemma attempts_effects: "attempts (effects tr) = attempts tr"
  by (induction tr rule: attempts.induct) (simp_all add: effects_def)

lemma sleeps_effects: "sleeps (effects tr) = sleeps tr"
  by (induction tr rule: sleeps.induct) (simp_all add: effects_def)

lemma attempts_rounds: "attempts (concat (map (\<lambda>k. [Generate_Content k, Sleep (f k)]) ks)) = ks"
  by (induction ks) simp_all

lemma sleeps_rounds: "sleeps (concat (map (\<lambda>k. [Generate_Content k, Sleep (f k)]) ks)) = map f ks"
  by (induction ks) simp_all

lemma backoff_loop_done:
  "\<not> int attempt < max_retries \<Longrightarrow> backoff_loop client req max_retries attempt = (Inr None, [])"
  by (subst backoff_loop.simps) simp

lemma backoff_loop_returns:
  "int attempt < max_retries \<Longrightarrow> client req attempt = Returns response \<Longrightarrow>
   backoff_loop client req max_retries attempt =
     (Inr (Some response),
      [Print (attempting_msg attempt), Generate_Content attempt, Print ''API call successful.''])"
  by (subst backoff_loop.simps) simp

lemma backoff_loop_retry:
  "int attempt < max_retries - 1 \<Longrightarrow> client req attempt = Raises (Exception e) \<Longrightarrow>
   backoff_loop client req max_retries attempt =
     (fst (backoff_loop client req max_retries (attempt + 1)),
      [Print (attempting_msg attempt), Generate_Content attempt, Print (failed_msg attempt e),
       Print (waiting_msg (2 ^ attempt)), Sleep (2 ^ attempt)]
      @ snd (backoff_loop client req max_retries (attempt + 1)))"
  by (subst backoff_loop.simps) (simp add: Let_def split: prod.splits)

lemma backoff_loop_last:
  "int attempt < max_retries \<Longrightarrow> \<not> int attempt < max_retries - 1 \<Longrightarrow>
   client req attempt = Raises (Exception e) \<Longrightarrow>
   backoff_loop client req max_retries attempt =
     (Inr None,
      [Print (attempting_msg attempt), Generate_Content attempt, Print (failed_msg attempt e)])"
  by (subst backoff_loop.simps) simp

lemma backoff_loop_propagates:
  "int attempt < max_retries \<Longrightarrow> client req attempt = Raises (BaseException e) \<Longrightarrow>
   backoff_loop client req max_retries attempt =
     (Inl (BaseException e), [Print (attempting_msg attempt), Generate_Content attempt])"
  by (subst backoff_loop.simps) simp

lemma backoff_loop_all_fail:
  "a < n \<Longrightarrow> \<forall>k. a \<le> k \<and> k < n \<longrightarrow> (\<exists>m. client req k = Raises (Exception m)) \<Longrightarrow>
   fst (backoff_loop client req (int n) a) = Inr None \<and>
   effects (snd (backoff_loop client req (int n) a)) =
     concat (map (\<lambda>k. [Generate_Content k, Sleep (2 ^ k)]) [a..<n - 1]) @ [Generate_Content (n - 1)]"
proof (induction "n - 1 - a" arbitrary: a)
  case 0
  then have a: "a = n - 1" by simp
  from 0 obtain m where m: "client req a = Raises (Exception m)" by auto
  have "backoff_loop client req (int n) a =
      (Inr None, [Print (attempting_msg a), Generate_Content a, Print (failed_msg a m)])"
    using 0 a m by (intro backoff_loop_last) auto
  then show ?case using a by (simp add: effects_def)
next
  case (Suc d)
  then have lt: "a < n - 1" by simp
  from Suc obtain m where m: "client req a = Raises (Exception m)" by auto
  have step: "backoff_loop client req (int n) a =
     (fst (backoff_loop client req (int n) (a + 1)),
      [Print (attempting_msg a), Generate_Content a, Print (failed_msg a m),
       Print (waiting_msg (2 ^ a)), Sleep (2 ^ a)]
      @ snd (backoff_loop client req (int n) (a + 1)))"
    using lt m by (intro backoff_loop_retry) auto
  have ih: "fst (backoff_loop client req (int n) (a + 1)) = Inr None \<and>
    effects (snd (backoff_loop client req (int n) (a + 1))) =
     concat (map (\<lambda>k. [Generate_Content k, Sleep (2 ^ k)]) [a + 1..<n - 1]) @ [Generate_Content (n - 1)]"
    using Suc lt by (intro Suc.hyps(1)) auto
  have e1: "effects (snd (backoff_loop client req (int n) a)) =
      [Generate_Content a, Sleep (2 ^ a)] @ effects (snd (backoff_loop client req (int n) (a + 1)))"
    by (simp add: step effects_def)
  have upt: "[a..<n - 1] = a # [a + 1..<n - 1]" using lt by (simp add: upt_conv_Cons)
  have c: "concat (map (\<lambda>k. [Generate_Content k, Sleep (2 ^ k)]) [a..<n - 1]) =
      [Generate_Content a, Sleep (2 ^ a)] @
      concat (map (\<lambda>k. [Generate_Content k, Sleep (2 ^ k)]) [a + 1..<n - 1])"
    by (subst upt) simp
  have f1: "fst (backoff_loop client req (int n) a) = fst (backoff_loop client req (int n) (a + 1))"
    by (simp add: step)
  show ?case unfolding e1 c f1 using ih by simp
qed

lemma backoff_loop_first_success:
  "a \<le> j \<Longrightarrow> int j < max_retries \<Longrightarrow>
   \<forall>i. a \<le> i \<and> i < j \<longrightarrow> (\<exists>m. client req i = Raises (Exception m)) \<Longrightarrow>
   client req j = Returns response \<Longrightarrow>
   fst (backoff_loop client req max_retries a) = Inr (Some response) \<and>
   effects (snd (backoff_loop client req max_retries a)) =
     concat (map (\<lambda>k. [Generate_Content k, Sleep (2 ^ k)]) [a..<j]) @ [Generate_Content j]"
proof (induction "j - a" arbitrary: a)
  case 0
  then have a: "a = j" by simp
  have "backoff_loop client req max_retries a =
      (Inr (Some response),
       [Print (attempting_msg a), Generate_Content a, Print ''API call successful.''])"
    using 0 a by (intro backoff_loop_returns) auto
  then show ?case using a by (simp add: effects_def)
next
  case (Suc d)
  then have lt: "a < j" by simp
  from Suc lt obtain m where m: "client req a = Raises (Exception m)" by auto
  have step: "backoff_loop client req max_retries a =
     (fst (backoff_loop client req max_retries (a + 1)),
      [Print (attempting_msg a), Generate_Content a, Print (failed_msg a m),
       Print (waiting_msg (2 ^ a)), Sleep (2 ^ a)]
      @ snd (backoff_loop client req max_retries (a + 1)))"
    using lt m Suc.prems by (intro backoff_loop_retry) auto
  have ih: "fst (backoff_loop client req max_retries (a + 1)) = Inr (Some response) \<and>
    effects (snd (backoff_loop client req max_retries (a + 1))) =
     concat (map (\<lambda>k. [Generate_Content k, Sleep (2 ^ k)]) [a + 1..<j]) @ [Generate_Content j]"
    using Suc lt by (intro Suc.hyps(1)) auto
  have e1: "effects (snd (backoff_loop client req max_retries a)) =
      [Generate_Content a, Sleep (2 ^ a)] @ effects (snd (backoff_loop client req max_retries (a + 1)))"
    by (simp add: step effects_def)
  have upt: "[a..<j] = a # [a + 1..<j]" using lt by (simp add: upt_conv_Cons)
  have c: "concat (map (\<lambda>k. [Generate_Content k, Sleep (2 ^ k)]) [a..<j]) =
      [Generate_Content a, Sleep (2 ^ a)] @
      concat (map (\<lambda>k. [Generate_Content k, Sleep (2 ^ k)]) [a + 1..<j])"
    by (subst upt) simp
  have f1: "fst (backoff_loop client req max_retries a) = fst (backoff_loop client req max_retries (a + 1))"
    by (simp add: step)
  show ?case unfolding e1 c f1 using ih by simp
qed

lemma backoff_loop_bounded:
  "length (attempts (snd (backoff_loop client req max_retries a))) \<le> nat (max_retries - int a)"
proof (induction client req max_retries a rule: backoff_loop.induct)
  case (1 client req max_retries attempt)
  show ?case
  proof (cases "int attempt < max_retries")
    case False
    then show ?thesis by (simp add: backoff_loop_done)
  next
    case lt: True
    show ?thesis
    proof (cases "client req attempt")
      case (Returns r)
      then show ?thesis using lt by (simp add: backoff_loop_returns)
    next
      case (Raises x)
      show ?thesis
      proof (cases x)
        case (Exception e)
        show ?thesis
        proof (cases "int attempt < max_retries - 1")
          case True
          have "length (attempts (snd (backoff_loop client req max_retries (attempt + 1))))
              \<le> nat (max_retries - int (attempt + 1))"
            using lt Raises Exception True by (intro "1.IH") auto
          then show ?thesis using True Raises Exception
            by (simp add: backoff_loop_retry attempts_append)
        next
          case False
          then show ?thesis using lt Raises Exception by (simp add: backoff_loop_last)
        qed
      next
        case (BaseException e)
        then show ?thesis using lt Raises by (simp add: backoff_loop_propagates)
      qed
    qed
  qed
qed

lemma backoff_loop_no_propagation:
  "\<forall>k m. client req k \<noteq> Raises (BaseException m) \<Longrightarrow>
   \<exists>r. fst (backoff_loop client req max_retries a) = Inr r"
proof (induction client req max_retries a rule: backoff_loop.induct)
  case (1 client req max_retries attempt)
  show ?case
  proof (cases "int attempt < max_retries")
    case False
    then show ?thesis by (simp add: backoff_loop_done)
  next
    case lt: True
    show ?thesis
    proof (cases "client req attempt")
      case (Returns r)
      then show ?thesis using lt by (simp add: backoff_loop_returns)
    next
      case (Raises x)
      show ?thesis
      proof (cases x)
        case (Exception e)
        show ?thesis
        proof (cases "int attempt < max_retries - 1")
          case True
          have "\<exists>r. fst (backoff_loop client req max_retries (attempt + 1)) = Inr r"
            using lt Raises Exception True "1.prems" by (intro "1.IH") auto
          then show ?thesis using True Raises Exception
            by (simp add: backoff_loop_retry)
        next
          case False
          then show ?thesis using lt Raises Exception by (simp add: backoff_loop_last)
        qed
      next
        case (BaseException e)
        then show ?thesis using Raises "1.prems" by simp
      qed
    qed
  qed
qed

section \<open>Facts about the route handler\<close>

lemma backoff_loop_returned_by_attempt:
  "fst (backoff_loop client req max_retries a) = Inr (Some r) \<Longrightarrow>
   \<exists>k. a \<le> k \<and> int k < max_retries \<and> client req k = Returns r"
proof (induction client req max_retries a rule: backoff_loop.induct)
  case (1 client req max_retries attempt)
  show ?case
  proof (cases "int attempt < max_retries")
    case False
    then show ?thesis using "1.prems" by (simp add: backoff_loop_done)
  next
    case lt: True
    show ?thesis
    proof (cases "client req attempt")
      case (Returns r')
      then have "r' = r" using lt "1.prems" by (simp add: backoff_loop_returns)
      then show ?thesis using lt Returns by auto
    next
      case (Raises x)
      show ?thesis
      proof (cases x)
        case (Exception e)
        show ?thesis
        proof (cases "int attempt < max_retries - 1")
          case True
          have "fst (backoff_loop client req max_retries (attempt + 1)) = Inr (Some r)"
            using "1.prems" True Raises Exception by (simp add: backoff_loop_retry)
          then have "\<exists>k. attempt + 1 \<le> k \<and> int k < max_retries \<and> client req k = Returns r"
            using lt Raises Exception True by (intro "1.IH") auto
          then show ?thesis by (meson add_leD1)
        next
          case False
          then show ?thesis using lt Raises Exception "1.prems" by (simp add: backoff_loop_last)
        qed
      next
        case (BaseException e)
        then show ?thesis using lt Raises "1.prems" by (simp add: backoff_loop_propagates)
      qed
    qed
  qed
qed

lemma has_delimiter_Cons:
  "c \<noteq> CHR ''{'' \<Longrightarrow> has_delimiter (c # s) = has_delimiter s"
  by (cases s) simp_all

lemma has_delimiter_append:
  "t \<noteq> [] \<Longrightarrow> hd t \<noteq> CHR ''{'' \<Longrightarrow> hd t \<noteq> CHR ''%'' \<Longrightarrow> hd t \<noteq> CHR ''#'' \<Longrightarrow>
   \<not> has_delimiter t \<Longrightarrow> has_delimiter (e @ t) = has_delimiter e"
  by (induction e rule: has_delimiter.induct) (auto simp: neq_Nil_conv)

lemma has_delimiter_client_init_error:
  "has_delimiter (client_init_error_template e) = has_delimiter e"
proof -
  have "has_delimiter (e @ ''</p>'') = has_delimiter e"
    by (rule has_delimiter_append) simp_all
  then show ?thesis
    by (simp add: client_init_error_template_def has_delimiter_Cons)
qed

lemma strip_client_init_error:
  "strip_trailing_newline (client_init_error_template e) = client_init_error_template e"
  by (simp add: strip_trailing_newline_def client_init_error_template_def)

lemma return_api_key_missing:
  "return_template w api_key_missing_template =
     Returns (Render_Template_String api_key_missing_template)"
  by (simp add: return_template_def render_template_string_def strip_trailing_newline_def
      api_key_missing_template_def)

lemma return_api_call_failed:
  "return_template w api_call_failed_template =
     Returns (Render_Template_String api_call_failed_template)"
  by (simp add: return_template_def render_template_string_def strip_trailing_newline_def
      api_call_failed_template_def)

lemma return_client_init_error:
  "\<not> has_delimiter e \<Longrightarrow>
   return_template w (client_init_error_template e) =
     Returns (Render_Template_String (client_init_error_template e))"
  by (simp add: return_template_def render_template_string_def has_delimiter_client_init_error
      strip_client_init_error)

lemma return_template_not_Str: "return_template w source \<noteq> Returns (Str p)"
  by (simp add: return_template_def split: outcome.splits)

lemma home_missing_key:
  "API_KEY w = [] \<Longrightarrow> home w = (Returns (Render_Template_String api_key_missing_template), [])"
  by (simp add: home_def return_api_key_missing)

lemma home_client_error:
  "API_KEY w \<noteq> [] \<Longrightarrow> genai_Client w (API_KEY w) = Raises (Exception e) \<Longrightarrow>
   home w = (return_template w (client_init_error_template e), [Client_Init (API_KEY w)])"
  by (simp add: home_def)

lemma home_client_propagates:
  "API_KEY w \<noteq> [] \<Longrightarrow> genai_Client w (API_KEY w) = Raises (BaseException e) \<Longrightarrow>
   home w = (Raises (BaseException e), [Client_Init (API_KEY w)])"
  by (simp add: home_def)

lemma home_call_failed:
  "API_KEY w \<noteq> [] \<Longrightarrow> genai_Client w (API_KEY w) = Returns client \<Longrightarrow>
   fst (call_gemini_with_backoff client user_query system_prompt home_tools 5) = Inr None \<Longrightarrow>
   fst (home w) = Returns (Render_Template_String api_call_failed_template)"
  by (cases "call_gemini_with_backoff client user_query system_prompt home_tools 5")
    (simp add: home_def return_api_call_failed)

lemma home_success:
  "API_KEY w \<noteq> [] \<Longrightarrow> genai_Client w (API_KEY w) = Returns client \<Longrightarrow>
   fst (call_gemini_with_backoff client user_query system_prompt home_tools 5) = Inr (Some r) \<Longrightarrow>
   fst (home w) =
     Returns (Str (html_template (py_str (response_text r)) (html_sources (sources r))))"
  by (cases "call_gemini_with_backoff client user_query system_prompt home_tools 5")
    (simp add: home_def)

lemma home_Str_cases:
  "fst (home w) = Returns (Str p) \<Longrightarrow>
   \<exists>client r. API_KEY w \<noteq> [] \<and> genai_Client w (API_KEY w) = Returns client \<and>
     fst (call_gemini_with_backoff client user_query system_prompt home_tools 5) = Inr (Some r) \<and>
     p = html_template (py_str (response_text r)) (html_sources (sources r))"
  by (auto simp: home_def return_template_not_Str
      split: if_splits outcome.splits exn.splits prod.splits sum.splits option.splits)

lemma API_KEY_world_with: "API_KEY (world_with key made) = (case key of None \<Rightarrow> [] | Some v \<Rightarrow> v)"
  by (simp add: API_KEY_def world_with_def)

lemma genai_Client_world_with: "genai_Client (world_with key made) k = made"
  by (simp add: world_with_def)

lemma steady_call:
  "call_gemini_with_backoff (steady_client r) c s t 5 =
     (Inr (Some r), [Print (attempting_msg 0), Generate_Content 0, Print ''API call successful.''])"
  by (simp add: call_gemini_with_backoff_def backoff_loop_returns steady_client_def)







lemma html_template_head_ends:
  \<open>\<exists>before. html_template_head = before @ ''<p class="mt-2 whitespace-pre-wrap">''\<close>
  unfolding html_template_head_def append_assoc [symmetric] by (rule exI) (rule refl)

lemma html_template_middle_starts:
  \<open>\<exists>after. html_template_middle = ''</p>'' @ after\<close>
  by (simp add: html_template_middle_def)

lemma home_steady:
  "fst (home (world_with (Some ''key'') (Returns (steady_client r)))) =
     Returns (Str (html_template (py_str (response_text r)) (html_sources (sources r))))"
  by (rule home_success [where client = "steady_client r"])
    (simp_all add: API_KEY_world_with genai_Client_world_with steady_call)

lemma sources_without_candidates: "candidates r = None \<Longrightarrow> sources r = []"
  by (simp add: sources_def)

section \<open>Claims about call_gemini_with_backoff\<close>

text \<open>
  Claim C1. For every positive \<open>n\<close>: if every one of the \<open>n\<close> calls of the service raises
  an error (an instance of \<open>Exception\<close>, which the retry handler catches), then
  \<open>call_gemini_with_backoff\<close> with \<open>max_retries = n\<close> returns \<open>None\<close>, makes exactly the
  \<open>n\<close> attempts \<open>0, ..., n - 1\<close>, and sleeps \<open>1, 2, 4, ..., 2^(n-2)\<close> seconds, one delay
  between each two consecutive attempts and none after the last: without its log lines
  the trace is attempt 0, sleep 1, attempt 1, sleep 2, ..., attempt \<open>n - 1\<close>.
\<close>

theorem permanent_failure_exhausts_retries:
  assumes "0 < n"
    and "\<forall>k<n. \<exists>m. client (request_of c s t) k = Raises (Exception m)"
  shows "fst (call_gemini_with_backoff client c s t (int n)) = Inr None \<and>
         attempts (snd (call_gemini_with_backoff client c s t (int n))) = [0..<n] \<and>
         length (attempts (snd (call_gemini_with_backoff client c s t (int n)))) = n \<and>
         sleeps (snd (call_gemini_with_backoff client c s t (int n))) = map (\<lambda>k. 2 ^ k) [0..<n - 1] \<and>
         effects (snd (call_gemini_with_backoff client c s t (int n))) =
           concat (map (\<lambda>k. [Generate_Content k, Sleep (2 ^ k)]) [0..<n - 1]) @
           [Generate_Content (n - 1)]"
proof -
  let ?run = "backoff_loop client (request_of c s t) (int n) 0"
  have run: "call_gemini_with_backoff client c s t (int n) = ?run"
    by (simp add: call_gemini_with_backoff_def)
  have main: "fst ?run = Inr None \<and>
      effects (snd ?run) =
        concat (map (\<lambda>k. [Generate_Content k, Sleep (2 ^ k)]) [0..<n - 1]) @
        [Generate_Content (n - 1)]"
    using assms by (intro backoff_loop_all_fail) auto
  have "attempts (snd ?run) = attempts (effects (snd ?run))"
    by (simp add: attempts_effects)
  also have "\<dots> = [0..<n - 1] @ [n - 1]"
    using main by (simp add: attempts_append attempts_rounds)
  also have "\<dots> = [0..<n]"
    using assms(1) by (cases n) simp_all
  finally have att: "attempts (snd ?run) = [0..<n]" .
  have "sleeps (snd ?run) = sleeps (effects (snd ?run))"
    by (simp add: sleeps_effects)
  also have "\<dots> = map (\<lambda>k. 2 ^ k) [0..<n - 1]"
    using main by (simp add: sleeps_append sleeps_rounds)
  finally have sl: "sleeps (snd ?run) = map (\<lambda>k. 2 ^ k) [0..<n - 1]" .
  show ?thesis unfolding run using main att sl by simp
qed

text \<open>
  The scenario of the specification: three attempts that all fail, delays of 1 s and 2 s.
\<close>

theorem permanent_failure_exhausts_retries_witness:
  "fst (call_gemini_with_backoff failing_client user_query system_prompt home_tools 3) = Inr None \<and>
   attempts (snd (call_gemini_with_backoff failing_client user_query system_prompt home_tools 3))
     = [0, 1, 2] \<and>
   sleeps (snd (call_gemini_with_backoff failing_client user_query system_prompt home_tools 3))
     = [1, 2] \<and>
   effects (snd (call_gemini_with_backoff failing_client user_query system_prompt home_tools 3))
     = [Generate_Content 0, Sleep 1, Generate_Content 1, Sleep 2, Generate_Content 2]"
  using permanent_failure_exhausts_retries
    [of 3 failing_client user_query system_prompt home_tools]
  by (simp add: failing_client_def upt_rec)

text \<open>
  Claim C2. For every \<open>k\<close> with \<open>1 \<le> k \<le> max_retries\<close>: if the first \<open>k - 1\<close> calls raise an
  error and the \<open>k\<close>-th call returns, then \<open>call_gemini_with_backoff\<close> returns that very
  response, whatever it holds, after exactly the \<open>k\<close> attempts \<open>0, ..., k - 1\<close> and the
  \<open>k - 1\<close> delays between them; no attempt follows.
\<close>

theorem first_success_is_returned:
  assumes "1 \<le> k" and "int k \<le> max_retries"
    and "\<forall>j<k - 1. \<exists>m. client (request_of c s t) j = Raises (Exception m)"
    and "client (request_of c s t) (k - 1) = Returns response"
  shows "fst (call_gemini_with_backoff client c s t max_retries) = Inr (Some response) \<and>
         attempts (snd (call_gemini_with_backoff client c s t max_retries)) = [0..<k] \<and>
         length (attempts (snd (call_gemini_with_backoff client c s t max_retries))) = k \<and>
         sleeps (snd (call_gemini_with_backoff client c s t max_retries)) =
           map (\<lambda>i. 2 ^ i) [0..<k - 1]"
proof -
  let ?run = "backoff_loop client (request_of c s t) max_retries 0"
  have run: "call_gemini_with_backoff client c s t max_retries = ?run"
    by (simp add: call_gemini_with_backoff_def)
  have main: "fst ?run = Inr (Some response) \<and>
      effects (snd ?run) =
        concat (map (\<lambda>i. [Generate_Content i, Sleep (2 ^ i)]) [0..<k - 1]) @
        [Generate_Content (k - 1)]"
    using assms by (intro backoff_loop_first_success) auto
  have "attempts (snd ?run) = attempts (effects (snd ?run))"
    by (simp add: attempts_effects)
  also have "\<dots> = [0..<k - 1] @ [k - 1]"
    using main by (simp add: attempts_append attempts_rounds)
  also have "\<dots> = [0..<k]"
    using assms(1) by (cases k) simp_all
  finally have att: "attempts (snd ?run) = [0..<k]" .
  have "sleeps (snd ?run) = sleeps (effects (snd ?run))"
    by (simp add: sleeps_effects)
  also have "\<dots> = map (\<lambda>i. 2 ^ i) [0..<k - 1]"
    using main by (simp add: sleeps_append sleeps_rounds)
  finally have sl: "sleeps (snd ?run) = map (\<lambda>i. 2 ^ i) [0..<k - 1]" .
  show ?thesis unfolding run using main att sl by simp
qed

text \<open>
  Two failures, then a response with empty text: it is returned after three attempts.
\<close>

theorem first_success_is_returned_witness:
  "fst (call_gemini_with_backoff (flaky_client empty_response) user_query system_prompt home_tools 5)
     = Inr (Some empty_response) \<and>
   attempts (snd (call_gemini_with_backoff (flaky_client empty_response) user_query system_prompt
     home_tools 5)) = [0, 1, 2] \<and>
   sleeps (snd (call_gemini_with_backoff (flaky_client empty_response) user_query system_prompt
     home_tools 5)) = [1, 2]"
  using first_success_is_returned
    [of 3 5 "flaky_client empty_response" user_query system_prompt home_tools empty_response]
  by (simp add: flaky_client_def upt_rec)

text \<open>
  Claim C9, as stated, fails: the handler is \<open>except Exception\<close>, so an exception outside
  the class \<open>Exception\<close> that the call raises (\<open>SystemExit\<close>, \<open>KeyboardInterrupt\<close>) leaves
  \<open>call_gemini_with_backoff\<close>: the result is neither a response nor \<open>None\<close>.
\<close>

theorem uncaught_exception_propagates:
  "fst (call_gemini_with_backoff interrupted_client user_query system_prompt home_tools 5)
     = Inl (BaseException ''SystemExit'')"
  by (simp add: call_gemini_with_backoff_def backoff_loop_propagates interrupted_client_def)

text \<open>
  Claim C9, amended. \<open>call_gemini_with_backoff\<close> is total, and for every \<open>max_retries\<close> and
  every behaviour of the service in which each call returns or raises an instance of
  \<open>Exception\<close>, it returns a response or \<open>None\<close> and no exception leaves it; it makes at
  most \<open>max_retries\<close> attempts.
\<close>

theorem exceptions_of_class_Exception_never_escape:
  assumes "\<forall>k m. client (request_of c s t) k \<noteq> Raises (BaseException m)"
  shows "(\<exists>r. fst (call_gemini_with_backoff client c s t max_retries) = Inr r) \<and>
         length (attempts (snd (call_gemini_with_backoff client c s t max_retries)))
           \<le> nat max_retries"
  using assms backoff_loop_no_propagation [of client "request_of c s t" max_retries 0]
    backoff_loop_bounded [of client "request_of c s t" max_retries 0]
  by (simp add: call_gemini_with_backoff_def)

text \<open>A service that always fails with an error, at the default of five attempts.\<close>

theorem exceptions_of_class_Exception_never_escape_witness:
  "(\<exists>r. fst (call_gemini_with_backoff failing_client user_query system_prompt home_tools 5) = Inr r) \<and>
   length (attempts (snd (call_gemini_with_backoff failing_client user_query system_prompt
     home_tools 5))) \<le> 5"
  using exceptions_of_class_Exception_never_escape
    [of failing_client user_query system_prompt home_tools 5]
  by (simp add: failing_client_def)

text \<open>
  Claim C10. For \<open>max_retries \<le> 0\<close> the loop body never runs: \<open>call_gemini_with_backoff\<close>
  returns \<open>None\<close> with an empty trace, so no attempt, no sleep and no log line.
\<close>

theorem nonpositive_max_retries_no_attempt:
  "max_retries \<le> 0 \<Longrightarrow>
   call_gemini_with_backoff client c s t max_retries = (Inr None, [])"
  by (simp add: call_gemini_with_backoff_def backoff_loop_done)

text \<open>At 0 and at -3, with a service that would answer at once.\<close>

theorem nonpositive_max_retries_no_attempt_witness:
  "call_gemini_with_backoff (steady_client fact_response) user_query system_prompt home_tools 0
     = (Inr None, []) \<and>
   call_gemini_with_backoff (steady_client fact_response) user_query system_prompt home_tools (- 3)
     = (Inr None, [])"
  using nonpositive_max_retries_no_attempt
      [of 0 "steady_client fact_response" user_query system_prompt home_tools]
    nonpositive_max_retries_no_attempt
      [of "- 3" "steady_client fact_response" user_query system_prompt home_tools]
  by simp

section \<open>Claims about home\<close>



text \<open>
  Claim C4, as stated, fails: \<open>home\<close> tests only \<open>response is None\<close>, so a response whose
  text is empty yields the success page, with nothing between the tags of the answer.
\<close>

theorem empty_answer_makes_success_page:
  "fst (home (world_with (Some ''key'') (Returns (steady_client empty_response)))) =
     Returns (Str (html_template [] [])) \<and>
   response_text empty_response = Some []"
  by (simp add: home_steady sources_without_candidates html_sources_def empty_response_def)

text \<open>
  Claim C4, amended. Whenever \<open>home\<close> produces the success page, the page is built from a
  response that one of the at most five attempts returned: its answer text is
  \<open>str(response.text)\<close>, which may be empty.
\<close>

theorem success_page_from_returned_response:
  assumes "fst (home w) = Returns (Str p)"
  shows "\<exists>client r k. API_KEY w \<noteq> [] \<and> genai_Client w (API_KEY w) = Returns client \<and>
           k < 5 \<and> client (request_of user_query system_prompt home_tools) k = Returns r \<and>
           p = html_template (py_str (response_text r)) (html_sources (sources r))"
proof -
  from assms obtain client r where
    key: "API_KEY w \<noteq> []" and made: "genai_Client w (API_KEY w) = Returns client" and
    run: "fst (call_gemini_with_backoff client user_query system_prompt home_tools 5) = Inr (Some r)" and
    p: "p = html_template (py_str (response_text r)) (html_sources (sources r))"
    using home_Str_cases by blast
  from run obtain k where "int k < 5"
    and "client (request_of user_query system_prompt home_tools) k = Returns r"
    unfolding call_gemini_with_backoff_def
    using backoff_loop_returned_by_attempt
      [of client "request_of user_query system_prompt home_tools" 5 0 r]
    by auto
  then show ?thesis using key made p by auto
qed

text \<open>The page of the response with empty text comes from the attempt that returned it.\<close>

theorem success_page_from_returned_response_witness:
  "fst (home (world_with (Some ''key'') (Returns (steady_client empty_response)))) =
     Returns (Str (html_template [] [])) \<and>
   (\<exists>client r k.
      API_KEY (world_with (Some ''key'') (Returns (steady_client empty_response))) \<noteq> [] \<and>
      genai_Client (world_with (Some ''key'') (Returns (steady_client empty_response)))
        (API_KEY (world_with (Some ''key'') (Returns (steady_client empty_response))))
        = Returns client \<and>
      k < 5 \<and> client (request_of user_query system_prompt home_tools) k = Returns r \<and>
      html_template [] [] = html_template (py_str (response_text r)) (html_sources (sources r)))"
proof -
  have h: "fst (home (world_with (Some ''key'') (Returns (steady_client empty_response)))) =
     Returns (Str (html_template [] []))"
    by (simp add: home_steady sources_without_candidates html_sources_def empty_response_def)
  show ?thesis using h success_page_from_returned_response [OF h] by simp
qed

text \<open>
  Claim C5, as stated, fails: \<open>html_template\<close> is an f-string returned as it is, and nothing
  in \<open>app.py\<close> escapes. For the answer text \<open><b>\<close> the page holds \<open><b>\<close> itself, which is
  not the page with the escaped text.
\<close>

theorem markup_in_answer_not_escaped:
  "fst (home (world_with (Some ''key'') (Returns (steady_client markup_response)))) =
     Returns (Str (html_template ''<b>'' [])) \<and>
   html_template ''<b>'' [] \<noteq> html_template (html_escape ''<b>'') []"
proof -
  have "html_escape ''<b>'' = ''&lt;b&gt;''"
    by (simp add: html_escape_def escape_char_def)
  then have "html_template ''<b>'' [] \<noteq> html_template (html_escape ''<b>'') []"
    by (simp add: html_template_def)
  then show ?thesis
    by (simp add: home_steady sources_without_candidates html_sources_def markup_response_def)
qed

text \<open>
  Claim C5, amended. In the success page the answer text \<open>str(response.text)\<close> stands
  unchanged, not escaped, between the opening tag of the pre-wrapped paragraph that ends
  \<open>html_template_head\<close> and the closing tag that starts \<open>html_template_middle\<close>, for every
  answer text.
\<close>

theorem answer_text_embedded_verbatim:
  assumes "API_KEY w \<noteq> []"
    and "genai_Client w (API_KEY w) = Returns client"
    and "fst (call_gemini_with_backoff client user_query system_prompt home_tools 5) = Inr (Some r)"
  shows \<open>\<exists>before after.
           html_template_head = before @ ''<p class="mt-2 whitespace-pre-wrap">'' \<and>
           html_template_middle = ''</p>'' @ after \<and>
           fst (home w) =
             Returns (Str (before @ ''<p class="mt-2 whitespace-pre-wrap">'' @
                           py_str (response_text r) @ ''</p>'' @ after @
                           html_sources (sources r) @ html_template_tail))\<close>
proof -
  obtain before where b: \<open>html_template_head = before @ ''<p class="mt-2 whitespace-pre-wrap">''\<close>
    using html_template_head_ends by blast
  obtain after where a: \<open>html_template_middle = ''</p>'' @ after\<close>
    using html_template_middle_starts by blast
  have "fst (home w) =
      Returns (Str (html_template_head @ py_str (response_text r) @ html_template_middle @
                    html_sources (sources r) @ html_template_tail))"
    using home_success [OF assms] by (simp add: html_template_def)
  then have \<open>fst (home w) =
             Returns (Str (before @ ''<p class="mt-2 whitespace-pre-wrap">'' @
                           py_str (response_text r) @ ''</p>'' @ after @
                           html_sources (sources r) @ html_template_tail))\<close>
    unfolding b a by (simp only: append_assoc)
  then show ?thesis using a b by blast
qed

text \<open>The answer text \<open><b>\<close> is in the page as it came.\<close>

theorem answer_text_embedded_verbatim_witness:
  \<open>\<exists>before after.
     html_template_head = before @ ''<p class="mt-2 whitespace-pre-wrap">'' \<and>
     html_template_middle = ''</p>'' @ after \<and>
     fst (home (world_with (Some ''key'') (Returns (steady_client markup_response)))) =
       Returns (Str (before @ ''<p class="mt-2 whitespace-pre-wrap">'' @ ''<b>'' @ ''</p>'' @
                     after @ html_template_tail))\<close>
  using answer_text_embedded_verbatim
    [of "world_with (Some ''key'') (Returns (steady_client markup_response))"
        "steady_client markup_response" markup_response]
  by (simp add: API_KEY_world_with genai_Client_world_with steady_call)
    (simp add: markup_response_def sources_def html_sources_def)

text \<open>
  Claim C6. If \<open>GEMINI_API_KEY\<close> is absent from the environment or empty, \<open>home\<close> returns the
  missing-credential page and its trace is empty: the client is not constructed and no
  call is attempted.
\<close>

theorem missing_credential_short_circuits:
  assumes "environ w ''GEMINI_API_KEY'' = None \<or> environ w ''GEMINI_API_KEY'' = Some []"
  shows "home w = (Returns (Render_Template_String api_key_missing_template), [])"
  using assms by (intro home_missing_key) (auto simp: API_KEY_def)

text \<open>The variable absent, and the variable set to the empty string.\<close>

theorem missing_credential_short_circuits_witness:
  "home (world_with None (Returns (steady_client fact_response))) =
     (Returns (Render_Template_String api_key_missing_template), []) \<and>
   home (world_with (Some []) (Returns (steady_client fact_response))) =
     (Returns (Render_Template_String api_key_missing_template), [])"
  using missing_credential_short_circuits
      [of "world_with None (Returns (steady_client fact_response))"]
    missing_credential_short_circuits
      [of "world_with (Some []) (Returns (steady_client fact_response))"]
  by (simp add: world_with_def)

text \<open>
  Claim C7 does not hold of the code on one of its three error paths. When the
  construction of the client raises an error, \<open>home\<close> puts the error's message into the
  source of a template and renders that source inside the \<open>except\<close> block. A message that
  holds template syntax Jinja2 cannot parse, here the unclosed block \<open>{% x\<close>, makes the
  rendering raise: the exception leaves \<open>home\<close>, no page is returned, and Flask answers with
  status 500, not 200.
\<close>

theorem template_syntax_in_message_breaks_error_page:
  "home (world_with (Some ''key'') (Raises (Exception ''{% x''))) =
     (Raises (Exception ''jinja2.exceptions.TemplateSyntaxError''), [Client_Init ''key'']) \<and>
   route_home (world_with (Some ''key'') (Raises (Exception ''{% x''))) =
     Internal_Server_Error (Exception ''jinja2.exceptions.TemplateSyntaxError'')"
proof -
  have "has_delimiter (client_init_error_template ''{% x'')"
    by (simp add: has_delimiter_client_init_error)
  then have "return_template (world_with (Some ''key'') (Raises (Exception ''{% x'')))
      (client_init_error_template ''{% x'') =
      Raises (Exception ''jinja2.exceptions.TemplateSyntaxError'')"
    by (simp add: return_template_def render_template_string_def world_with_def)
  then have "home (world_with (Some ''key'') (Raises (Exception ''{% x''))) =
     (Raises (Exception ''jinja2.exceptions.TemplateSyntaxError''), [Client_Init ''key''])"
    by (simp add: home_client_error API_KEY_world_with genai_Client_world_with)
  then show ?thesis by (simp add: route_home_def)
qed

text \<open>
  Claim C8, as stated, fails: the handler around \<open>genai.Client\<close> is \<open>except Exception\<close>, so an
  exception outside the class \<open>Exception\<close> raised by the construction is not caught;
  it leaves \<open>home\<close> and no page is returned.
\<close>

theorem client_init_interrupt_propagates:
  "home (world_with (Some ''key'') (Raises (BaseException ''SystemExit''))) =
     (Raises (BaseException ''SystemExit''), [Client_Init ''key''])"
  by (simp add: home_client_propagates API_KEY_world_with genai_Client_world_with)

text \<open>
  Claim C8, amended. If the construction of the client raises an instance of \<open>Exception\<close>,
  \<open>home\<close> catches it and returns an HTML page that shows the exception's message text as
  it is, between \<open><p>\<close> and \<open></p>\<close> under the heading; the construction is not retried
  and no call is attempted. This is stated for a message that holds none of Jinja2's
  delimiters; what \<open>home\<close> does with a message that holds one is left open here.
\<close>

theorem client_init_error_shown:
  assumes "API_KEY w \<noteq> []"
    and "genai_Client w (API_KEY w) = Raises (Exception e)"
    and "\<not> has_delimiter e"
  shows \<open>home w =
           (Returns (Render_Template_String
              (''<h1 style='color: #EF4444;'>Client Initialization Error</h1><p>'' @ e @ ''</p>'')),
            [Client_Init (API_KEY w)])\<close>
  using home_client_error [OF assms(1,2)] return_client_init_error [OF assms(3), of w]
  by (simp add: client_init_error_template_def)

text \<open>A constructor that fails with the message "bad transport".\<close>

theorem client_init_error_shown_witness:
  \<open>home (world_with (Some ''key'') (Raises (Exception ''bad transport''))) =
     (Returns (Render_Template_String
        ''<h1 style='color: #EF4444;'>Client Initialization Error</h1><p>bad transport</p>''),
      [Client_Init ''key''])\<close>
  using client_init_error_shown
    [of "world_with (Some ''key'') (Raises (Exception ''bad transport''))" "''bad transport''"]
  by (simp add: API_KEY_world_with genai_Client_world_with)

end
